theory Spec2Isabelle
  imports Main
begin

section \<open>The chat client's state and handlers\<close>

text \<open>
  The repository holds three variants of the React component \<open>ChatApp\<close>:
  \<^item> the multi-conversation client with simulated replies (\<open>src/unnamed/part_001\<close>),
    handlers prefixed \<open>mc_\<close> here where their name is shared;
  \<^item> the single-conversation client with simulated replies (\<open>src/unnamed/part_002\<close>),
    prefix \<open>sim_\<close>;
  \<^item> the single-conversation client that calls the backend
    (\<open>app/components/ChatApp.tsx\<close>), prefix \<open>api_\<close>.

  The \<open>useState\<close> cells of a component are the fields of a record and every handler is
  a function from the state a render sees to the state after the handler's updates. The
  environment is explicit: the clock reading of \<open>Date.now()\<close> and the outcome of a
  \<open>fetch\<close> are parameters, a callback given to \<open>setTimeout\<close> is an entry of the
  field \<open>timers\<close> until it runs, the browser's \<open>localStorage\<close> item, the requests sent
  and the lines written by \<open>console.error\<close> are fields of the state.
\<close>

subsection \<open>Strings\<close>

text \<open>
  A JavaScript string is a \<open>string\<close> here, its code units restricted to 0..255.
  \<open>String.prototype.trim\<close> removes the white space and line terminators at both ends;
  in that range they are TAB, LF, VT, FF, CR, SPACE and NBSP. A string is truthy when it
  is not empty.
\<close>

definition is_ws :: "char \<Rightarrow> bool" where
  "is_ws c = (of_char c \<in> set [9, 10, 11, 12, 13, 32, 160 :: nat])"

definition js_trim :: "string \<Rightarrow> string" where
  "js_trim s = rev (dropWhile is_ws (rev (dropWhile is_ws s)))"

text \<open>The decimal rendering of a number in a template literal.\<close>

fun string_of_nat :: "nat \<Rightarrow> string" where
  "string_of_nat n =
     (if n < 10 then [''0123456789'' ! n]
      else string_of_nat (n div 10) @ [''0123456789'' ! (n mod 10)])"

declare string_of_nat.simps [simp del]

subsection \<open>Data\<close>

datatype role = User | Assistant

record message =
  role :: role
  content :: string

text \<open>The field \<open>id\<close> of a \<open>Conversation\<close> is \<open>conv_id\<close>: a number, read from the clock.\<close>

record conversation =
  conv_id :: int
  title :: string

text \<open>The five cells every variant has.\<close>

record chat_state =
  isLoggedIn :: bool
  username :: string
  messages :: "message list"
  userInput :: string
  darkMode :: bool

text \<open>
  The simulated variants schedule their replies with \<open>setTimeout(..., 1000)\<close>. Each
  entry of \<open>timers\<close> is one scheduled callback, kept as the value of the variable its
  closure reads (\<open>userInput\<close> in \<open>part_002\<close>, \<open>username\<close> in \<open>part_001\<close>); equal delays
  run in the order they were scheduled.
\<close>

record sim_state = chat_state +
  timers :: "string list"

record mc_state = sim_state +
  conversations :: "conversation list"
  currentConversation :: "conversation option"

text \<open>
  The backend variant: \<open>access_token\<close> is the \<open>localStorage\<close> item of that name
  (\<open>None\<close> when \<open>getItem\<close> returns null), \<open>requests\<close> the \<open>fetch\<close> calls made so far,
  \<open>console\<close> the lines of \<open>console.error\<close>.
\<close>

datatype request =
  LoginRequest string
  | ChatRequest string string string

datatype fetch_result = ResponseOk string | ResponseNotOk | FetchThrows

record api_state = chat_state +
  access_token :: "string option"
  requests :: "request list"
  console :: "string list"

subsection \<open>Handlers shared by the three variants\<close>

definition setUsername :: "string \<Rightarrow> 'a chat_state_scheme \<Rightarrow> 'a chat_state_scheme" where
  "setUsername v s = s\<lparr>username := v\<rparr>"

definition setUserInput :: "string \<Rightarrow> 'a chat_state_scheme \<Rightarrow> 'a chat_state_scheme" where
  "setUserInput v s = s\<lparr>userInput := v\<rparr>"

definition toggleDarkMode :: "'a chat_state_scheme \<Rightarrow> 'a chat_state_scheme" where
  "toggleDarkMode s = s\<lparr>darkMode := \<not> darkMode s\<rparr>"

subsection \<open>The multi-conversation variant\<close>

definition mc_init :: mc_state where
  "mc_init = \<lparr>isLoggedIn = False, username = [], messages = [], userInput = [],
     darkMode = False, timers = [], conversations = [], currentConversation = None\<rparr>"

definition mc_handleLogin :: "mc_state \<Rightarrow> mc_state" where
  "mc_handleLogin s = (if js_trim (username s) \<noteq> [] then s\<lparr>isLoggedIn := True\<rparr> else s)"

definition mc_handleLogout :: "mc_state \<Rightarrow> mc_state" where
  "mc_handleLogout s =
     s\<lparr>isLoggedIn := False, username := [], conversations := [],
       currentConversation := None, messages := []\<rparr>"

definition addNewConversation :: "int \<Rightarrow> mc_state \<Rightarrow> mc_state" where
  "addNewConversation now s =
     (let newConversation =
        \<lparr>conv_id = now,
         title = ''Conversation '' @ string_of_nat (length (conversations s) + 1)\<rparr>
      in s\<lparr>conversations := conversations s @ [newConversation],
            currentConversation := Some newConversation,
            messages := []\<rparr>)"

definition selectConversation :: "conversation \<Rightarrow> mc_state \<Rightarrow> mc_state" where
  "selectConversation conversation s =
     s\<lparr>currentConversation := Some conversation, messages := []\<rparr>"

definition mc_handleSubmit :: "mc_state \<Rightarrow> mc_state" where
  "mc_handleSubmit s =
     (if js_trim (userInput s) \<noteq> [] then
        s\<lparr>messages := messages s @ [\<lparr>role = User, content = userInput s\<rparr>],
          userInput := [],
          timers := timers s @ [username s]\<rparr>
      else s)"

definition mc_timeout :: "mc_state \<Rightarrow> mc_state" where
  "mc_timeout s =
     (case timers s of
        [] \<Rightarrow> s
      | u # rest \<Rightarrow>
          s\<lparr>messages := messages s @
               [\<lparr>role = Assistant,
                 content = ''Hello '' @ u @ '', this is a simulated response.''\<rparr>],
            timers := rest\<rparr>)"

subsection \<open>The single-conversation variant with simulated replies\<close>

definition sim_init :: sim_state where
  "sim_init = \<lparr>isLoggedIn = False, username = [], messages = [], userInput = [],
     darkMode = False, timers = []\<rparr>"

definition sim_handleLogin :: "sim_state \<Rightarrow> sim_state" where
  "sim_handleLogin s =
     (if js_trim (username s) \<noteq> [] then
        s\<lparr>isLoggedIn := True,
          messages := [\<lparr>role = Assistant,
            content = ''Hello '' @ username s @ ''! How can I assist you today?''\<rparr>]\<rparr>
      else s)"

definition sim_handleLogout :: "sim_state \<Rightarrow> sim_state" where
  "sim_handleLogout s =
     s\<lparr>isLoggedIn := False, username := [], messages := [], userInput := []\<rparr>"

definition sim_handleSubmit :: "sim_state \<Rightarrow> sim_state" where
  "sim_handleSubmit s =
     (if js_trim (userInput s) \<noteq> [] then
        s\<lparr>messages := messages s @ [\<lparr>role = User, content = userInput s\<rparr>],
          userInput := [],
          timers := timers s @ [userInput s]\<rparr>
      else s)"

definition sim_timeout :: "sim_state \<Rightarrow> sim_state" where
  "sim_timeout s =
     (case timers s of
        [] \<Rightarrow> s
      | t # rest \<Rightarrow>
          s\<lparr>messages := messages s @
               [\<lparr>role = Assistant,
                 content = ''This is a simulated response to '' @ [CHR 0x22] @ t
                   @ [CHR 0x22] @ ''.''\<rparr>],
            timers := rest\<rparr>)"

subsection \<open>The variant that calls the backend\<close>

text \<open>
  React's cells start at their defaults on every mount; \<open>localStorage\<close> outlives the
  page, so the item found at mount is a parameter.
\<close>

definition api_init :: "string option \<Rightarrow> api_state" where
  "api_init stored = \<lparr>isLoggedIn = False, username = [], messages = [], userInput = [],
     darkMode = False, access_token = stored, requests = [], console = []\<rparr>"

text \<open>
  \<open>handleLogin\<close> and \<open>handleSubmit\<close> are \<open>async\<close>: the part before the first
  \<open>await\<close> runs with the event (\<open>_fetch\<close>: \<open>None\<close> when the handler returns without
  calling \<open>fetch\<close>), the rest when the response is there (\<open>_resume\<close>), on the state of
  that moment. The payload of \<open>ResponseOk\<close> is the field the handler reads from the body
  (\<open>access_token\<close>, as the string \<open>setItem\<close> stores; \<open>response\<close>, taken to be the
  string its type says); \<open>ResponseNotOk\<close> is a response whose \<open>ok\<close> is false
  (a status outside 200..299); \<open>FetchThrows\<close> is a rejected \<open>fetch\<close> or
  \<open>response.json()\<close>, caught by the handler's \<open>catch\<close>. \<open>api_handleLogin r\<close> and
  \<open>api_handleSubmit r\<close> are the whole handler when no other event comes in between.
\<close>

definition api_handleLogin_fetch :: "api_state \<Rightarrow> api_state option" where
  "api_handleLogin_fetch s =
     (if js_trim (username s) \<noteq> [] then
        Some (s\<lparr>requests := requests s @ [LoginRequest (username s)]\<rparr>)
      else None)"

definition api_handleLogin_resume :: "fetch_result \<Rightarrow> api_state \<Rightarrow> api_state" where
  "api_handleLogin_resume r s =
     (case r of
        ResponseOk tok \<Rightarrow> s\<lparr>access_token := Some tok, isLoggedIn := True\<rparr>
      | ResponseNotOk \<Rightarrow> s\<lparr>console := console s @ [''Login failed'']\<rparr>
      | FetchThrows \<Rightarrow> s\<lparr>console := console s @ [''Error during login:'']\<rparr>)"

definition api_handleLogin :: "fetch_result \<Rightarrow> api_state \<Rightarrow> api_state" where
  "api_handleLogin r s =
     (case api_handleLogin_fetch s of
        Some s' \<Rightarrow> api_handleLogin_resume r s'
      | None \<Rightarrow> s)"

definition api_handleLogout :: "api_state \<Rightarrow> api_state" where
  "api_handleLogout s =
     s\<lparr>isLoggedIn := False, username := [], messages := [], userInput := [],
       access_token := None\<rparr>"

text \<open>The \<open>Authorization\<close> header: a null item is rendered as \<open>null\<close> by the template.\<close>

definition bearer :: "string option \<Rightarrow> string" where
  "bearer tok = ''Bearer '' @ (case tok of None \<Rightarrow> ''null'' | Some t \<Rightarrow> t)"

definition api_handleSubmit_fetch :: "api_state \<Rightarrow> api_state option" where
  "api_handleSubmit_fetch s =
     (if js_trim (userInput s) \<noteq> [] then
        Some (s\<lparr>messages := messages s @ [\<lparr>role = User, content = userInput s\<rparr>],
               userInput := [],
               requests := requests s @
                 [ChatRequest (bearer (access_token s)) (userInput s) (username s)]\<rparr>)
      else None)"

definition api_handleSubmit_resume :: "fetch_result \<Rightarrow> api_state \<Rightarrow> api_state" where
  "api_handleSubmit_resume r s =
     (case r of
        ResponseOk reply \<Rightarrow>
          s\<lparr>messages := messages s @ [\<lparr>role = Assistant, content = reply\<rparr>]\<rparr>
      | ResponseNotOk \<Rightarrow> s\<lparr>console := console s @ [''Failed to get AI response'']\<rparr>
      | FetchThrows \<Rightarrow> s\<lparr>console := console s @ [''Error during chat:'']\<rparr>)"

definition api_handleSubmit :: "fetch_result \<Rightarrow> api_state \<Rightarrow> api_state" where
  "api_handleSubmit r s =
     (case api_handleSubmit_fetch s of
        Some s' \<Rightarrow> api_handleSubmit_resume r s'
      | None \<Rightarrow> s)"

text \<open>
  The events of the backend variant. The component renders the login form (the username
  field and its submit) while \<open>isLoggedIn\<close> is false and the chat pane (the message
  field, its submit and the logout button) while it is true; the dark mode button is in
  both. A response may come at any time: responses are not matched with the requests, so
  the runs below include every interleaving the browser can produce.
\<close>

datatype api_event =
  SetUsername string
  | SubmitLogin
  | LoginResponse fetch_result
  | Logout
  | SetUserInput string
  | SubmitMessage
  | ChatResponse fetch_result
  | ToggleDarkMode

fun api_enabled :: "api_event \<Rightarrow> api_state \<Rightarrow> bool" where
  "api_enabled (SetUsername v) s = (\<not> isLoggedIn s)"
| "api_enabled SubmitLogin s = (\<not> isLoggedIn s)"
| "api_enabled (LoginResponse r) s = True"
| "api_enabled Logout s = isLoggedIn s"
| "api_enabled (SetUserInput v) s = isLoggedIn s"
| "api_enabled SubmitMessage s = isLoggedIn s"
| "api_enabled (ChatResponse r) s = True"
| "api_enabled ToggleDarkMode s = True"

fun api_step :: "api_event \<Rightarrow> api_state \<Rightarrow> api_state" where
  "api_step (SetUsername v) s = setUsername v s"
| "api_step SubmitLogin s = (case api_handleLogin_fetch s of Some s' \<Rightarrow> s' | None \<Rightarrow> s)"
| "api_step (LoginResponse r) s = api_handleLogin_resume r s"
| "api_step Logout s = api_handleLogout s"
| "api_step (SetUserInput v) s = setUserInput v s"
| "api_step SubmitMessage s = (case api_handleSubmit_fetch s of Some s' \<Rightarrow> s' | None \<Rightarrow> s)"
| "api_step (ChatResponse r) s = api_handleSubmit_resume r s"
| "api_step ToggleDarkMode s = toggleDarkMode s"

fun api_run :: "api_state \<Rightarrow> api_event list \<Rightarrow> api_state option" where
  "api_run s [] = Some s"
| "api_run s (e # es) = (if api_enabled e s then api_run (api_step e s) es else None)"

subsection \<open>One exchange: type a message, submit it, receive the reply\<close>

definition sim_exchange :: "string \<Rightarrow> sim_state \<Rightarrow> sim_state" where
  "sim_exchange t s = sim_timeout (sim_handleSubmit (setUserInput t s))"

text \<open>The pair is the text typed and the \<open>response\<close> field of the backend's answer.\<close>

definition api_exchange :: "string \<times> string \<Rightarrow> api_state \<Rightarrow> api_state" where
  "api_exchange p s = api_handleSubmit (ResponseOk (snd p)) (setUserInput (fst p) s)"

subsection \<open>The specification's \<open>selectConversation\<close>\<close>

text \<open>
  The operation as the specification words it, for comparison with the handler: it takes
  an identifier and fails with \<open>NotFoundError\<close> when no conversation of the registry has
  it.
\<close>

datatype error = NotFoundError

definition spec_selectConversation :: "int \<Rightarrow> mc_state \<Rightarrow> error + mc_state" where
  "spec_selectConversation i s =
     (case find (\<lambda>c. conv_id c = i) (conversations s) of
        None \<Rightarrow> Inl NotFoundError
      | Some c \<Rightarrow> Inr (s\<lparr>currentConversation := Some c, messages := []\<rparr>))"

subsection \<open>Properties of states and logs\<close>

text \<open>The stored token is there exactly when the session is logged in.\<close>

definition token_inv :: "api_state \<Rightarrow> bool" where
  "token_inv s = ((access_token s \<noteq> None) = isLoggedIn s)"

text \<open>Roles that alternate strictly, the first being the user's.\<close>

definition alternating :: "role list \<Rightarrow> bool" where
  "alternating rs = (\<forall>i < length rs. rs ! i = (if even i then User else Assistant))"

section \<open>Basic facts\<close>

lemma dropWhile_all_iff: "(\<forall>x\<in>set (dropWhile P xs). P x) \<longleftrightarrow> (\<forall>x\<in>set xs. P x)"
  by (induction xs) auto

text \<open>A string trims to the empty string exactly when it is empty or all white space.\<close>

lemma js_trim_empty_iff: "js_trim s = [] \<longleftrightarrow> (\<forall>c\<in>set s. is_ws c)"
  by (simp add: js_trim_def dropWhile_eq_Nil_conv dropWhile_all_iff)

lemma string_of_nat_1: "string_of_nat (Suc 0) = ''1''"
  by (simp add: string_of_nat.simps)

lemma string_of_nat_2: "string_of_nat (Suc (Suc 0)) = ''2''"
  by (simp add: string_of_nat.simps)

lemma length_concat_pairs: "length (concat (replicate n [a, b])) = 2 * n"
  by (induction n) auto

lemma nth_concat_pairs:
  "i < 2 * n \<Longrightarrow> concat (replicate n [a, b]) ! i = (if even i then a else b)"
proof (induction n arbitrary: i)
  case 0
  then show ?case by simp
next
  case (Suc n)
  show ?case
  proof (cases i)
    case 0
    then show ?thesis by simp
  next
    case (Suc j)
    show ?thesis
    proof (cases j)
      case 0
      with Suc show ?thesis by simp
    next
      case (Suc k)
      with \<open>i = Suc j\<close> Suc.prems have "k < 2 * n" by simp
      from Suc.IH[OF this] \<open>i = Suc j\<close> Suc show ?thesis by simp
    qed
  qed
qed

lemma alternating_pairs: "alternating (concat (replicate n [User, Assistant]))"
  by (simp add: alternating_def length_concat_pairs nth_concat_pairs)

lemma roles_concat_pairs:
  "map role (concat (map (\<lambda>p. [\<lparr>role = User, content = f p\<rparr>,
       \<lparr>role = Assistant, content = g p\<rparr>]) ps))
   = concat (replicate (length ps) [User, Assistant])"
  by (induction ps) auto

section \<open>Dark mode\<close>

text \<open>
  C10. Toggling dark mode flips \<open>darkMode\<close> and nothing else: the login flag, the
  username, the log and the input, and in the variants that have them the registry, the
  selection, the scheduled replies, the token, the requests and the console are the same
  before and after.
\<close>

theorem toggleDarkMode_frame:
  "darkMode (toggleDarkMode s) = (\<not> darkMode s)
   \<and> isLoggedIn (toggleDarkMode s) = isLoggedIn s
   \<and> username (toggleDarkMode s) = username s
   \<and> messages (toggleDarkMode s) = messages s
   \<and> userInput (toggleDarkMode s) = userInput s
   \<and> chat_state.more (toggleDarkMode s) = chat_state.more s
   \<and> conversations (toggleDarkMode m) = conversations m
   \<and> currentConversation (toggleDarkMode m) = currentConversation m
   \<and> timers (toggleDarkMode m) = timers m
   \<and> access_token (toggleDarkMode a) = access_token a
   \<and> requests (toggleDarkMode a) = requests a
   \<and> console (toggleDarkMode a) = console a"
  by (simp add: toggleDarkMode_def)

section \<open>Login\<close>

text \<open>
  C6. A username that is blank after trimming (empty or all white space, see
  \<open>js_trim_empty_iff\<close>) makes login a no-op. In the backend variant the handler returns
  before \<open>fetch\<close>: the state, and with it the login flag and the list of requests, is
  the same whatever the backend would have answered. In the simulated variants the
  handler leaves the state as it is.
\<close>

theorem login_blank_noop:
  "(js_trim (username a) = [] \<longrightarrow>
      api_handleLogin_fetch a = None
      \<and> api_handleLogin r a = a
      \<and> api_step SubmitLogin a = a
      \<and> requests (api_handleLogin r a) = requests a
      \<and> isLoggedIn (api_handleLogin r a) = isLoggedIn a)
   \<and> (js_trim (username m) = [] \<longrightarrow> mc_handleLogin m = m)
   \<and> (js_trim (username b) = [] \<longrightarrow> sim_handleLogin b = b)"
  by (simp add: api_handleLogin_def api_handleLogin_fetch_def mc_handleLogin_def
      sim_handleLogin_def)

theorem login_blank_noop_witness:
  "js_trim (username (setUsername ''  '' (api_init None))) = []
   \<and> api_handleLogin (ResponseOk ''T1'') (setUsername ''  '' (api_init None))
       = setUsername ''  '' (api_init None)
   \<and> \<not> isLoggedIn (api_handleLogin (ResponseOk ''T1'') (setUsername ''  '' (api_init None)))
   \<and> requests (api_handleLogin (ResponseOk ''T1'') (setUsername ''  '' (api_init None))) = []
   \<and> js_trim (username (setUsername [] mc_init)) = []
   \<and> mc_handleLogin (setUsername [] mc_init) = setUsername [] mc_init
   \<and> js_trim (username (setUsername [CHR 0x09, CHR 0x20] sim_init)) = []
   \<and> sim_handleLogin (setUsername [CHR 0x09, CHR 0x20] sim_init)
       = setUsername [CHR 0x09, CHR 0x20] sim_init"
  using login_blank_noop [of "setUsername ''  '' (api_init None)" "ResponseOk ''T1''"
      "setUsername [] mc_init" "setUsername [CHR 0x09, CHR 0x20] sim_init"]
  by (simp add: js_trim_def is_ws_def setUsername_def api_init_def mc_init_def sim_init_def)

text \<open>
  C3, as the code has it. With a username that is not blank, a successful login sets
  \<open>isLoggedIn\<close>. The backend variant stores the token of the response and leaves the
  log as it was; the multi-conversation variant leaves the log, the registry and the
  selection as they were; so both show an empty log, and no selection, after a login
  from the initial state. The simulated single-conversation variant replaces the log by
  one greeting of the assistant.
\<close>

theorem login_success:
  assumes "js_trim (username a) \<noteq> []" and "js_trim (username b) \<noteq> []"
    and "js_trim (username m) \<noteq> []"
  shows "isLoggedIn (api_handleLogin (ResponseOk tok) a)
    \<and> access_token (api_handleLogin (ResponseOk tok) a) = Some tok
    \<and> messages (api_handleLogin (ResponseOk tok) a) = messages a
    \<and> isLoggedIn (sim_handleLogin b)
    \<and> messages (sim_handleLogin b)
        = [\<lparr>role = Assistant,
            content = ''Hello '' @ username b @ ''! How can I assist you today?''\<rparr>]
    \<and> isLoggedIn (mc_handleLogin m)
    \<and> messages (mc_handleLogin m) = messages m
    \<and> conversations (mc_handleLogin m) = conversations m
    \<and> currentConversation (mc_handleLogin m) = currentConversation m"
  using assms
  by (simp add: api_handleLogin_def api_handleLogin_fetch_def api_handleLogin_resume_def
      sim_handleLogin_def mc_handleLogin_def)

theorem login_success_witness:
  "js_trim (username (setUsername ''alice'' (api_init None))) \<noteq> []
   \<and> isLoggedIn (api_handleLogin (ResponseOk ''T1'') (setUsername ''alice'' (api_init None)))
   \<and> access_token (api_handleLogin (ResponseOk ''T1'') (setUsername ''alice'' (api_init None)))
       = Some ''T1''
   \<and> messages (api_handleLogin (ResponseOk ''T1'') (setUsername ''alice'' (api_init None))) = []
   \<and> messages (sim_handleLogin (setUsername ''alice'' sim_init))
       = [\<lparr>role = Assistant, content = ''Hello alice! How can I assist you today?''\<rparr>]
   \<and> isLoggedIn (mc_handleLogin (setUsername ''alice'' mc_init))
   \<and> messages (mc_handleLogin (setUsername ''alice'' mc_init)) = []
   \<and> currentConversation (mc_handleLogin (setUsername ''alice'' mc_init)) = None"
  using login_success [of "setUsername ''alice'' (api_init None)"
      "setUsername ''alice'' sim_init" "setUsername ''alice'' mc_init" "''T1''"]
  by (simp add: js_trim_def is_ws_def setUsername_def api_init_def sim_init_def mc_init_def)

text \<open>
  The log is not empty after a login in the simulated single-conversation variant: from
  the initial state, with the username \<open>alice\<close>, it holds the greeting.
\<close>

theorem login_greeting_counterexample:
  "js_trim (username (setUsername ''alice'' sim_init)) \<noteq> []
   \<and> \<not> isLoggedIn (setUsername ''alice'' sim_init)
   \<and> isLoggedIn (sim_handleLogin (setUsername ''alice'' sim_init))
   \<and> messages (sim_handleLogin (setUsername ''alice'' sim_init))
       = [\<lparr>role = Assistant, content = ''Hello alice! How can I assist you today?''\<rparr>]
   \<and> messages (sim_handleLogin (setUsername ''alice'' sim_init)) \<noteq> []"
  by (simp add: js_trim_def is_ws_def setUsername_def sim_init_def sim_handleLogin_def)

section \<open>The session\<close>

lemma api_step_token_inv: "token_inv s \<Longrightarrow> token_inv (api_step e s)"
  by (cases e)
     (auto simp add: token_inv_def setUsername_def setUserInput_def toggleDarkMode_def
        api_handleLogin_fetch_def api_handleLogin_resume_def api_handleLogout_def
        api_handleSubmit_fetch_def api_handleSubmit_resume_def
        split: option.splits fetch_result.splits if_splits)

lemma api_run_token_inv: "token_inv s \<Longrightarrow> api_run s es = Some s' \<Longrightarrow> token_inv s'"
proof (induction es arbitrary: s)
  case Nil
  then show ?case by simp
next
  case (Cons e es)
  from Cons.prems(2) have run: "api_run (api_step e s) es = Some s'"
    by (auto split: if_splits)
  from Cons.prems(1) have "token_inv (api_step e s)" by (rule api_step_token_inv)
  with run show ?case by (rule Cons.IH[rotated])
qed

text \<open>
  C4, as the code has it. In every state the backend variant reaches from a mount that
  finds no stored token, the token is stored exactly when \<open>isLoggedIn\<close> is true. (The
  username is the text of the login form and is not tied to the login flag.)
\<close>

theorem token_iff_logged_in:
  assumes "api_run (api_init None) es = Some s"
  shows "(access_token s \<noteq> None) = isLoggedIn s"
proof -
  have "token_inv (api_init None)" by (simp add: token_inv_def api_init_def)
  from this assms have "token_inv s" by (rule api_run_token_inv)
  then show ?thesis by (simp add: token_inv_def)
qed

theorem token_iff_logged_in_witness:
  "api_run (api_init None)
      [SetUsername ''alice'', SubmitLogin, LoginResponse (ResponseOk ''T1'')]
     = Some \<lparr>isLoggedIn = True, username = ''alice'', messages = [], userInput = [],
         darkMode = False, access_token = Some ''T1'', requests = [LoginRequest ''alice''],
         console = []\<rparr>
   \<and> (access_token \<lparr>isLoggedIn = True, username = ''alice'', messages = [], userInput = [],
         darkMode = False, access_token = Some ''T1'', requests = [LoginRequest ''alice''],
         console = []\<rparr> \<noteq> None)
     = isLoggedIn \<lparr>isLoggedIn = True, username = ''alice'', messages = [], userInput = [],
         darkMode = False, access_token = Some ''T1'', requests = [LoginRequest ''alice''],
         console = []\<rparr>"
proof -
  have run: "api_run (api_init None)
      [SetUsername ''alice'', SubmitLogin, LoginResponse (ResponseOk ''T1'')]
     = Some \<lparr>isLoggedIn = True, username = ''alice'', messages = [], userInput = [],
         darkMode = False, access_token = Some ''T1'', requests = [LoginRequest ''alice''],
         console = []\<rparr>"
    by (simp add: api_init_def setUsername_def api_handleLogin_fetch_def
        api_handleLogin_resume_def js_trim_def is_ws_def)
  from run token_iff_logged_in [OF run] show ?thesis by simp
qed

text \<open>
  Typing one letter in the login form gives a state whose username is not empty while
  the session is not logged in.
\<close>

theorem username_counterexample:
  "api_run (api_init None) [SetUsername ''a''] = Some ((api_init None)\<lparr>username := ''a''\<rparr>)
   \<and> \<not> ((username ((api_init None)\<lparr>username := ''a''\<rparr>) \<noteq> [])
         = isLoggedIn ((api_init None)\<lparr>username := ''a''\<rparr>))"
  by (simp add: api_init_def setUsername_def)

section \<open>Logout\<close>

text \<open>
  C7. Logout, from any state, gives the initial logged-out state: the login flag false,
  the username empty, the token removed, the registry empty, no conversation selected,
  the log empty. What stays is outside the session, the registry and the log: the dark
  mode, what was scheduled or written before, and in the multi-conversation variant the
  text of the message field. Logging out twice is logging out once.
\<close>

theorem logout_resets:
  "isLoggedIn (mc_handleLogout m) = False
   \<and> username (mc_handleLogout m) = []
   \<and> conversations (mc_handleLogout m) = []
   \<and> currentConversation (mc_handleLogout m) = None
   \<and> messages (mc_handleLogout m) = []
   \<and> mc_handleLogout m
       = mc_init\<lparr>userInput := userInput m, darkMode := darkMode m, timers := timers m\<rparr>
   \<and> mc_handleLogout (mc_handleLogout m) = mc_handleLogout m
   \<and> isLoggedIn (api_handleLogout a) = False
   \<and> username (api_handleLogout a) = []
   \<and> access_token (api_handleLogout a) = None
   \<and> messages (api_handleLogout a) = []
   \<and> api_handleLogout a
       = (api_init None)\<lparr>darkMode := darkMode a, requests := requests a,
           console := console a\<rparr>
   \<and> api_handleLogout (api_handleLogout a) = api_handleLogout a"
  by (simp add: mc_handleLogout_def mc_init_def api_handleLogout_def api_init_def)

section \<open>The conversation registry\<close>

text \<open>
  A new conversation keeps the identifiers distinct when the clock reading is none of
  the identifiers in the registry.
\<close>

lemma addNewConversation_fresh:
  "distinct (map conv_id (conversations s)) \<Longrightarrow> now \<notin> conv_id ` set (conversations s)
   \<Longrightarrow> distinct (map conv_id (conversations (addNewConversation now s)))"
  by (simp add: addNewConversation_def Let_def)

text \<open>
  C1. The identifier of a new conversation is the clock reading and nothing compares it
  with the identifiers already there: two conversations created at the same reading of
  the clock have the same identifier, so the identifiers of the registry are not
  distinct.
\<close>

theorem addNewConversation_same_clock:
  "conversations (addNewConversation 1700000000000 (addNewConversation 1700000000000
      (mc_handleLogin (setUsername ''alice'' mc_init))))
    = [\<lparr>conv_id = 1700000000000, title = ''Conversation 1''\<rparr>,
       \<lparr>conv_id = 1700000000000, title = ''Conversation 2''\<rparr>]
   \<and> \<not> distinct (map conv_id (conversations (addNewConversation 1700000000000
      (addNewConversation 1700000000000 (mc_handleLogin (setUsername ''alice'' mc_init))))))"
proof -
  have login: "conversations (mc_handleLogin (setUsername ''alice'' mc_init)) = []"
    by (simp add: mc_handleLogin_def setUsername_def mc_init_def)
  have "conversations (addNewConversation 1700000000000 (addNewConversation 1700000000000
      (mc_handleLogin (setUsername ''alice'' mc_init))))
    = [\<lparr>conv_id = 1700000000000, title = ''Conversation 1''\<rparr>,
       \<lparr>conv_id = 1700000000000, title = ''Conversation 2''\<rparr>]"
    by (simp add: addNewConversation_def Let_def login string_of_nat_1 string_of_nat_2)
  then show ?thesis by simp
qed

text \<open>
  C2, as the code has it. \<open>selectConversation\<close> takes a conversation, not an
  identifier, and never fails: whatever conversation it is given, in the registry or
  not, becomes the selected one, the log is emptied and the registry is unchanged.
\<close>

theorem selectConversation_total:
  "currentConversation (selectConversation c s) = Some c
   \<and> messages (selectConversation c s) = []
   \<and> conversations (selectConversation c s) = conversations s"
  by (simp add: selectConversation_def)

text \<open>
  In the initial state the registry is empty: the specification's operation fails for
  the identifier 7, the handler selects the conversation with that identifier.
\<close>

theorem selectConversation_counterexample:
  "\<lparr>conv_id = 7, title = ''Conversation 1''\<rparr> \<notin> set (conversations mc_init)
   \<and> spec_selectConversation 7 mc_init = Inl NotFoundError
   \<and> currentConversation (selectConversation \<lparr>conv_id = 7, title = ''Conversation 1''\<rparr> mc_init)
       = Some \<lparr>conv_id = 7, title = ''Conversation 1''\<rparr>"
  by (simp add: selectConversation_def spec_selectConversation_def mc_init_def)

section \<open>The message log\<close>

text \<open>
  C9. The multi-conversation variant accepts a message while no conversation is
  selected: the user's message is appended to the log and the simulated reply is
  scheduled. The handler never reads the selection, so what it does is the same under
  any selection.
\<close>

theorem mc_handleSubmit_no_selection:
  assumes "js_trim (userInput s) \<noteq> []" and "currentConversation s = None"
  shows "messages (mc_handleSubmit s) = messages s @ [\<lparr>role = User, content = userInput s\<rparr>]
    \<and> timers (mc_handleSubmit s) = timers s @ [username s]
    \<and> currentConversation (mc_handleSubmit s) = None
    \<and> mc_handleSubmit (s\<lparr>currentConversation := c\<rparr>)
        = (mc_handleSubmit s)\<lparr>currentConversation := c\<rparr>"
  using assms by (simp add: mc_handleSubmit_def)

theorem mc_handleSubmit_no_selection_witness:
  "js_trim (userInput (setUserInput ''hi'' (mc_handleLogin (setUsername ''alice'' mc_init))))
     \<noteq> []
   \<and> currentConversation (setUserInput ''hi'' (mc_handleLogin (setUsername ''alice'' mc_init)))
       = None
   \<and> messages (mc_handleSubmit
        (setUserInput ''hi'' (mc_handleLogin (setUsername ''alice'' mc_init))))
       = [\<lparr>role = User, content = ''hi''\<rparr>]
   \<and> timers (mc_handleSubmit
        (setUserInput ''hi'' (mc_handleLogin (setUsername ''alice'' mc_init))))
       = [''alice'']
   \<and> messages (mc_timeout (mc_handleSubmit
        (setUserInput ''hi'' (mc_handleLogin (setUsername ''alice'' mc_init)))))
       = [\<lparr>role = User, content = ''hi''\<rparr>,
          \<lparr>role = Assistant, content = ''Hello alice, this is a simulated response.''\<rparr>]"
proof -
  let ?s = "setUserInput ''hi'' (mc_handleLogin (setUsername ''alice'' mc_init))"
  have h1: "js_trim (userInput ?s) \<noteq> []"
    by (simp add: setUserInput_def js_trim_def is_ws_def)
  have h2: "currentConversation ?s = None"
    by (simp add: setUserInput_def setUsername_def mc_handleLogin_def mc_init_def)
  note submit = mc_handleSubmit_no_selection [OF h1 h2, of None]
  from submit have m:
    "messages (mc_handleSubmit ?s) = messages ?s @ [\<lparr>role = User, content = userInput ?s\<rparr>]"
    by (rule conjunct1)
  from submit have t: "timers (mc_handleSubmit ?s) = timers ?s @ [username ?s]"
    by (rule conjunct1 [OF conjunct2])
  have s: "messages ?s = [] \<and> timers ?s = [] \<and> username ?s = ''alice'' \<and> userInput ?s = ''hi''"
    by (simp add: setUserInput_def setUsername_def mc_handleLogin_def mc_init_def)
  from h1 h2 m t s show ?thesis by (simp add: mc_timeout_def)
qed

text \<open>
  C5. When the message is not blank and the call to the backend fails, by a response
  that is not ok or by an exception, the log grows by the user's message and by nothing
  else. Whenever the failure arrives, it leaves the log and everything the component
  renders (its five cells) as they are: the only trace is a line on the console.
\<close>

theorem api_handleSubmit_failure:
  assumes "js_trim (userInput s) \<noteq> []" and "r = ResponseNotOk \<or> r = FetchThrows"
  shows "messages (api_handleSubmit r s)
      = messages s @ [\<lparr>role = User, content = userInput s\<rparr>]
    \<and> length (messages (api_handleSubmit r s)) = length (messages s) + 1
    \<and> messages (api_handleSubmit_resume r t) = messages t
    \<and> chat_state.truncate (api_handleSubmit_resume r t) = chat_state.truncate t"
  using assms
  by (auto simp add: api_handleSubmit_def api_handleSubmit_resume_def
      api_handleSubmit_fetch_def chat_state.truncate_def)

theorem api_handleSubmit_failure_witness:
  "js_trim (userInput (setUserInput ''hi''
      (api_handleLogin (ResponseOk ''T1'') (setUsername ''alice'' (api_init None))))) \<noteq> []
   \<and> messages (api_handleSubmit ResponseNotOk (setUserInput ''hi''
        (api_handleLogin (ResponseOk ''T1'') (setUsername ''alice'' (api_init None)))))
      = [\<lparr>role = User, content = ''hi''\<rparr>]"
  using api_handleSubmit_failure [of "setUserInput ''hi''
      (api_handleLogin (ResponseOk ''T1'') (setUsername ''alice'' (api_init None)))"
      ResponseNotOk]
  by (simp add: js_trim_def is_ws_def setUserInput_def setUsername_def api_init_def
      api_handleLogin_def api_handleLogin_fetch_def api_handleLogin_resume_def)

lemma sim_exchange_roles:
  "js_trim t \<noteq> [] \<Longrightarrow>
   map role (messages (sim_exchange t s)) = map role (messages s) @ [User, Assistant]"
  by (simp add: sim_exchange_def sim_timeout_def sim_handleSubmit_def setUserInput_def
      split: list.split)

lemma api_exchange_messages:
  "js_trim (fst p) \<noteq> [] \<Longrightarrow>
   messages (api_exchange p s)
     = messages s @ [\<lparr>role = User, content = fst p\<rparr>, \<lparr>role = Assistant, content = snd p\<rparr>]"
  by (simp add: api_exchange_def api_handleSubmit_def api_handleSubmit_resume_def
      api_handleSubmit_fetch_def setUserInput_def)

lemma sim_fold_roles:
  "\<forall>t\<in>set ts. js_trim t \<noteq> [] \<Longrightarrow>
   map role (messages (fold sim_exchange ts s))
     = map role (messages s) @ concat (replicate (length ts) [User, Assistant])"
proof (induction ts arbitrary: s)
  case Nil
  then show ?case by simp
next
  case (Cons t ts)
  then show ?case by (simp add: sim_exchange_roles)
qed

lemma api_fold_messages:
  "\<forall>p\<in>set ps. js_trim (fst p) \<noteq> [] \<Longrightarrow>
   messages (fold api_exchange ps s)
     = messages s @ concat (map (\<lambda>p. [\<lparr>role = User, content = fst p\<rparr>,
         \<lparr>role = Assistant, content = snd p\<rparr>]) ps)"
proof (induction ps arbitrary: s)
  case Nil
  then show ?case by simp
next
  case (Cons p ps)
  then show ?case by (simp add: api_exchange_messages)
qed

text \<open>
  C8. N messages, none blank, each answered before the next is sent, add N pairs of a
  user's message and an assistant's message to the log, in this order. From an empty log
  the result has length 2N and its roles alternate strictly, the first being the user's.
  This holds with the simulated replies and with the backend; with the backend the
  messages are the texts sent and the replies received.
\<close>

theorem alternating_log:
  assumes "\<forall>t\<in>set ts. js_trim t \<noteq> []" and "\<forall>p\<in>set ps. js_trim (fst p) \<noteq> []"
  shows "map role (messages (fold sim_exchange ts b))
      = map role (messages b) @ concat (replicate (length ts) [User, Assistant])
    \<and> (messages b = [] \<longrightarrow>
         length (messages (fold sim_exchange ts b)) = 2 * length ts
         \<and> alternating (map role (messages (fold sim_exchange ts b))))
    \<and> messages (fold api_exchange ps a)
        = messages a @ concat (map (\<lambda>p. [\<lparr>role = User, content = fst p\<rparr>,
            \<lparr>role = Assistant, content = snd p\<rparr>]) ps)
    \<and> (messages a = [] \<longrightarrow>
         length (messages (fold api_exchange ps a)) = 2 * length ps
         \<and> alternating (map role (messages (fold api_exchange ps a))))"
proof -
  note sim = sim_fold_roles [OF assms(1), of b]
  note api = api_fold_messages [OF assms(2), of a]
  have sim_empty: "length (messages (fold sim_exchange ts b)) = 2 * length ts
      \<and> alternating (map role (messages (fold sim_exchange ts b)))" if "messages b = []"
  proof -
    from sim that have r: "map role (messages (fold sim_exchange ts b))
        = concat (replicate (length ts) [User, Assistant])" by simp
    have "length (messages (fold sim_exchange ts b))
        = length (map role (messages (fold sim_exchange ts b)))" by simp
    also have "\<dots> = 2 * length ts" unfolding r by (rule length_concat_pairs)
    finally show ?thesis using alternating_pairs [of "length ts"] r by simp
  qed
  have api_empty: "length (messages (fold api_exchange ps a)) = 2 * length ps
      \<and> alternating (map role (messages (fold api_exchange ps a)))" if "messages a = []"
  proof -
    from api that have "map role (messages (fold api_exchange ps a))
        = map role (concat (map (\<lambda>p. [\<lparr>role = User, content = fst p\<rparr>,
            \<lparr>role = Assistant, content = snd p\<rparr>]) ps))" by simp
    then have r: "map role (messages (fold api_exchange ps a))
        = concat (replicate (length ps) [User, Assistant])"
      by (simp only: roles_concat_pairs)
    have "length (messages (fold api_exchange ps a))
        = length (map role (messages (fold api_exchange ps a)))" by simp
    also have "\<dots> = 2 * length ps" unfolding r by (rule length_concat_pairs)
    finally show ?thesis using alternating_pairs [of "length ps"] r by simp
  qed
  from sim api sim_empty api_empty show ?thesis by blast
qed

theorem alternating_log_witness:
  "js_trim ''hi'' \<noteq> [] \<and> js_trim ''how are you'' \<noteq> [] \<and> js_trim ''bye'' \<noteq> []
   \<and> messages sim_init = []
   \<and> messages (api_handleLogin (ResponseOk ''T1'') (setUsername ''alice'' (api_init None))) = []
   \<and> length (messages (fold sim_exchange [''hi'', ''how are you''] sim_init)) = 4
   \<and> alternating (map role (messages (fold sim_exchange [''hi'', ''how are you''] sim_init)))
   \<and> messages (fold api_exchange [(''hi'', ''hello''), (''bye'', ''see you'')]
        (api_handleLogin (ResponseOk ''T1'') (setUsername ''alice'' (api_init None))))
      = [\<lparr>role = User, content = ''hi''\<rparr>, \<lparr>role = Assistant, content = ''hello''\<rparr>,
         \<lparr>role = User, content = ''bye''\<rparr>, \<lparr>role = Assistant, content = ''see you''\<rparr>]
   \<and> alternating (map role (messages (fold api_exchange [(''hi'', ''hello''), (''bye'', ''see you'')]
        (api_handleLogin (ResponseOk ''T1'') (setUsername ''alice'' (api_init None))))))"
proof -
  let ?a = "api_handleLogin (ResponseOk ''T1'') (setUsername ''alice'' (api_init None))"
  have h1: "\<forall>t\<in>set [''hi'', ''how are you'']. js_trim t \<noteq> []"
    by (simp add: js_trim_def is_ws_def)
  have h2: "\<forall>p\<in>set [(''hi'', ''hello''), (''bye'', ''see you'')]. js_trim (fst p) \<noteq> []"
    by (simp add: js_trim_def is_ws_def)
  have h3: "messages sim_init = []"
    by (simp add: sim_init_def)
  have h4: "messages ?a = []"
    by (simp add: js_trim_def is_ws_def setUsername_def api_init_def api_handleLogin_def
        api_handleLogin_fetch_def api_handleLogin_resume_def)
  note log = alternating_log [OF h1 h2, of sim_init ?a]
  from log have "messages sim_init = [] \<longrightarrow>
      length (messages (fold sim_exchange [''hi'', ''how are you''] sim_init))
        = 2 * length [''hi'', ''how are you'']
      \<and> alternating (map role (messages (fold sim_exchange [''hi'', ''how are you''] sim_init)))"
    by (rule conjunct1 [OF conjunct2])
  from this h3 have c1:
    "length (messages (fold sim_exchange [''hi'', ''how are you''] sim_init))
        = 2 * length [''hi'', ''how are you'']
      \<and> alternating (map role (messages (fold sim_exchange [''hi'', ''how are you''] sim_init)))"
    by (rule mp)
  from log have "messages (fold api_exchange [(''hi'', ''hello''), (''bye'', ''see you'')] ?a)
        = messages ?a @ concat (map (\<lambda>p. [\<lparr>role = User, content = fst p\<rparr>,
            \<lparr>role = Assistant, content = snd p\<rparr>]) [(''hi'', ''hello''), (''bye'', ''see you'')])"
    by (rule conjunct1 [OF conjunct2 [OF conjunct2]])
  then have c2: "messages (fold api_exchange [(''hi'', ''hello''), (''bye'', ''see you'')] ?a)
      = [\<lparr>role = User, content = ''hi''\<rparr>, \<lparr>role = Assistant, content = ''hello''\<rparr>,
         \<lparr>role = User, content = ''bye''\<rparr>, \<lparr>role = Assistant, content = ''see you''\<rparr>]"
    by (simp only: h4 list.map concat.simps append.simps fst_conv snd_conv)
  from log have "messages ?a = [] \<longrightarrow>
      length (messages (fold api_exchange [(''hi'', ''hello''), (''bye'', ''see you'')] ?a))
        = 2 * length [(''hi'', ''hello''), (''bye'', ''see you'')]
      \<and> alternating (map role
          (messages (fold api_exchange [(''hi'', ''hello''), (''bye'', ''see you'')] ?a)))"
    by (rule conjunct2 [OF conjunct2 [OF conjunct2]])
  from this h4 have c3:
    "length (messages (fold api_exchange [(''hi'', ''hello''), (''bye'', ''see you'')] ?a))
        = 2 * length [(''hi'', ''hello''), (''bye'', ''see you'')]
      \<and> alternating (map role
          (messages (fold api_exchange [(''hi'', ''hello''), (''bye'', ''see you'')] ?a)))"
    by (rule mp)
  from c1 have c1': "length (messages (fold sim_exchange [''hi'', ''how are you''] sim_init)) = 4"
    by simp
  have t: "js_trim ''hi'' \<noteq> []" "js_trim ''how are you'' \<noteq> []" "js_trim ''bye'' \<noteq> []"
    by (simp_all add: js_trim_def is_ws_def)
  from t h3 h4 c1' c1 [THEN conjunct2] c2 c3 [THEN conjunct2] show ?thesis
    by (intro conjI)
qed

end
